theory Spec2Isabelle
  imports Complex_Main
begin

section \<open>Numbers and concrete sets\<close>

text \<open>
  The library works on Python floats, on SymPy set objects and on mpmath intervals.
  Floats are idealised as real numbers, extended by the two infinities that mpmath's
  interval division produces and that SymPy accepts as interval end points. Rounding
  (mpmath rounds interval end points outwards) is not part of this model.
\<close>

datatype ext = NInf | Fin real | PInf

fun ext_le :: "ext \<Rightarrow> ext \<Rightarrow> bool" where
  "ext_le NInf _ = True"
| "ext_le _ PInf = True"
| "ext_le (Fin x) (Fin y) = (x \<le> y)"
| "ext_le _ _ = False"

definition ext_lt :: "ext \<Rightarrow> ext \<Rightarrow> bool" where
  "ext_lt x y = (ext_le x y \<and> x \<noteq> y)"

definition ext_min :: "ext \<Rightarrow> ext \<Rightarrow> ext" where
  "ext_min x y = (if ext_le x y then x else y)"

definition ext_max :: "ext \<Rightarrow> ext \<Rightarrow> ext" where
  "ext_max x y = (if ext_le x y then y else x)"

text \<open>
  A concrete SymPy set, as \<open>subs(ALPHA, value)\<close> returns it: the empty set, a finite
  set of one point (what \<open>Interval(x, x)\<close> evaluates to), an interval with its two
  open flags, or a union of such sets (what the set operations return).
\<close>

datatype sset =
    EmptySet
  | FiniteSet ext
  | Interval ext ext bool bool
  | Union sset sset

text \<open>The points of a concrete set.\<close>

fun elems :: "sset \<Rightarrow> real set" where
  "elems EmptySet = {}"
| "elems (FiniteSet p) = (case p of Fin x \<Rightarrow> {x} | _ \<Rightarrow> {})"
| "elems (Interval lo hi lopen ropen) =
     {x. (if lopen then ext_lt lo (Fin x) else ext_le lo (Fin x)) \<and>
         (if ropen then ext_lt (Fin x) hi else ext_le (Fin x) hi)}"
| "elems (Union s t) = elems s \<union> elems t"

text \<open>
  SymPy's constructor \<open>Interval(start, end, left_open, right_open)\<close> on numbers:
  the empty set when \<open>end < start\<close>, or when the end points are equal and a side is
  open; the finite set of the point when they are equal and both sides are closed; an
  infinite end point is made open.
\<close>

fun Interval_new :: "ext \<Rightarrow> ext \<Rightarrow> bool \<Rightarrow> bool \<Rightarrow> sset" where
  "Interval_new start end lopen ropen =
     (if ext_lt end start then EmptySet
      else if end = start \<and> (lopen \<or> ropen) then EmptySet
      else if end = start then FiniteSet end
      else Interval start end (lopen \<or> start = NInf) (ropen \<or> end = PInf))"

section \<open>The entity\<close>

text \<open>
  Python exceptions that the modelled code can raise: reading \<open>start\<close> or
  \<open>to_mpi\<close> on a set that has no such attribute, reading \<open>inf\<close> or \<open>sup\<close> of
  the empty set, and an exception of the interval operator itself.
\<close>

datatype error = AttributeError | NotImplementedError | OperatorError

fun is_EmptySet :: "sset \<Rightarrow> bool" where
  "is_EmptySet EmptySet = True"
| "is_EmptySet _ = False"

fun is_FiniteSet :: "sset \<Rightarrow> bool" where
  "is_FiniteSet (FiniteSet _) = True"
| "is_FiniteSet _ = False"

text \<open>The attribute \<open>start\<close> (and \<open>end\<close>) exists on intervals only.\<close>

fun get_start :: "sset \<Rightarrow> error + ext" where
  "get_start (Interval lo hi lopen ropen) = Inr lo"
| "get_start _ = Inl AttributeError"

fun get_end :: "sset \<Rightarrow> error + ext" where
  "get_end (Interval lo hi lopen ropen) = Inr hi"
| "get_end _ = Inl AttributeError"

text \<open>The properties \<open>inf\<close> and \<open>sup\<close> of a set.\<close>

fun sset_inf :: "sset \<Rightarrow> error + ext" where
  "sset_inf EmptySet = Inl NotImplementedError"
| "sset_inf (FiniteSet p) = Inr p"
| "sset_inf (Interval lo hi lopen ropen) = Inr lo"
| "sset_inf (Union s t) =
     (case sset_inf s of Inl e \<Rightarrow> Inl e
      | Inr x \<Rightarrow> (case sset_inf t of Inl e \<Rightarrow> Inl e | Inr y \<Rightarrow> Inr (ext_min x y)))"

fun sset_sup :: "sset \<Rightarrow> error + ext" where
  "sset_sup EmptySet = Inl NotImplementedError"
| "sset_sup (FiniteSet p) = Inr p"
| "sset_sup (Interval lo hi lopen ropen) = Inr hi"
| "sset_sup (Union s t) =
     (case sset_sup s of Inl e \<Rightarrow> Inl e
      | Inr x \<Rightarrow> (case sset_sup t of Inl e \<Rightarrow> Inl e | Inr y \<Rightarrow> Inr (ext_max x y)))"

text \<open>
  A \<open>Piecewise\<close> membership function is its list of branches (expression, guard),
  both functions of \<open>x\<close>. An expression has no real value where it divides by zero.
  Evaluation takes the first branch whose guard holds and returns its index and value.
\<close>

type_synonym piecewise = "((real \<Rightarrow> real option) \<times> (real \<Rightarrow> bool)) list"

definition pydiv :: "real \<Rightarrow> real \<Rightarrow> real option" where
  "pydiv p q = (if q = 0 then None else Some (p / q))"

fun piecewise_eval :: "piecewise \<Rightarrow> nat \<Rightarrow> real \<Rightarrow> (nat \<times> real option) option" where
  "piecewise_eval [] i x = None"
| "piecewise_eval ((e, g) # bs) i x =
     (if g x then Some (i, e x) else piecewise_eval bs (Suc i) x)"

text \<open>
  The entity: universe, membership function and alpha-cut function. The alpha-cut
  function is an expression in the shared symbol \<open>ALPHA\<close>; it is modelled as the
  function that \<open>subs(ALPHA, value)\<close> computes from a value. The control points that
  the shape classes also store are written and never read, and are left out.
\<close>

record xmu =
  u :: sset
  muequals :: piecewise
  xequals :: "real \<Rightarrow> sset"

definition Xmu_init :: "sset \<Rightarrow> error + xmu" where
  "Xmu_init u0 =
     (case get_start u0 of Inl e \<Rightarrow> Inl e
      | Inr lo \<Rightarrow> (case get_end u0 of Inl e \<Rightarrow> Inl e
      | Inr hi \<Rightarrow> Inr \<lparr> u = u0, muequals = [(\<lambda>x. Some 0, \<lambda>x. True)],
                        xequals = (\<lambda>alpha. EmptySet) \<rparr>))"

definition BasicXmu :: "sset \<Rightarrow> (real \<Rightarrow> sset) option \<Rightarrow> error + xmu" where
  "BasicXmu u0 func =
     (case Xmu_init u0 of Inl e \<Rightarrow> Inl e
      | Inr self \<Rightarrow>
          (case func of None \<Rightarrow> Inr self | Some f \<Rightarrow> Inr (self\<lparr> xequals := f \<rparr>)))"

section \<open>The shape generators\<close>

text \<open>
  Each constructor prepares the base entity and, when all its control points are given,
  sets the membership function and then the alpha-cut function. No constructor and no
  setter compares the control points with each other.
\<close>

definition UpwardGradientXmu_setMuFunction :: "xmu \<Rightarrow> real \<Rightarrow> real \<Rightarrow> xmu" where
  "UpwardGradientXmu_setMuFunction self a b =
     self\<lparr> muequals :=
       [(\<lambda>x. pydiv (x - a) (b - a), \<lambda>x. a < x \<and> x < b),
        (\<lambda>x. Some 1, \<lambda>x. x \<ge> b),
        (\<lambda>x. Some 0, \<lambda>x. True)] \<rparr>"

definition UpwardGradientXmu_setXFunction :: "xmu \<Rightarrow> real \<Rightarrow> real \<Rightarrow> error + xmu" where
  "UpwardGradientXmu_setXFunction self a b =
     (case sset_sup (u self) of Inl e \<Rightarrow> Inl e
      | Inr s \<Rightarrow> Inr (self\<lparr> xequals :=
          (\<lambda>alpha. Interval_new (Fin ((alpha * b) - (alpha * a) + a)) s False False) \<rparr>))"

definition UpwardGradientXmu :: "sset \<Rightarrow> real option \<Rightarrow> real option \<Rightarrow> error + xmu" where
  "UpwardGradientXmu u0 a b =
     (case Xmu_init u0 of Inl e \<Rightarrow> Inl e
      | Inr self \<Rightarrow>
         (case (a, b) of
            (Some a', Some b') \<Rightarrow>
              UpwardGradientXmu_setXFunction (UpwardGradientXmu_setMuFunction self a' b') a' b'
          | _ \<Rightarrow> Inr self))"

definition DownwardGradientXmu_setMuFunction :: "xmu \<Rightarrow> real \<Rightarrow> real \<Rightarrow> xmu" where
  "DownwardGradientXmu_setMuFunction self a b =
     self\<lparr> muequals :=
       [(\<lambda>x. pydiv (b - x) (b - a), \<lambda>x. a < x \<and> x < b),
        (\<lambda>x. Some 1, \<lambda>x. x \<le> a),
        (\<lambda>x. Some 0, \<lambda>x. True)] \<rparr>"

definition DownwardGradientXmu_setXFunction :: "xmu \<Rightarrow> real \<Rightarrow> real \<Rightarrow> error + xmu" where
  "DownwardGradientXmu_setXFunction self a b =
     (case sset_inf (u self) of Inl e \<Rightarrow> Inl e
      | Inr i \<Rightarrow> Inr (self\<lparr> xequals :=
          (\<lambda>alpha. Interval_new i (Fin ((- alpha * b) + (alpha * a) + b)) False False) \<rparr>))"

definition DownwardGradientXmu :: "sset \<Rightarrow> real option \<Rightarrow> real option \<Rightarrow> error + xmu" where
  "DownwardGradientXmu u0 a b =
     (case Xmu_init u0 of Inl e \<Rightarrow> Inl e
      | Inr self \<Rightarrow>
         (case (a, b) of
            (Some a', Some b') \<Rightarrow>
              DownwardGradientXmu_setXFunction (DownwardGradientXmu_setMuFunction self a' b') a' b'
          | _ \<Rightarrow> Inr self))"

definition TrapezoidalXmu_setMuFunction :: "xmu \<Rightarrow> real \<Rightarrow> real \<Rightarrow> real \<Rightarrow> real \<Rightarrow> xmu" where
  "TrapezoidalXmu_setMuFunction self a b c d =
     self\<lparr> muequals :=
       [(\<lambda>x. pydiv (x - a) (b - a), \<lambda>x. a < x \<and> x < b),
        (\<lambda>x. Some 1, \<lambda>x. b \<le> x \<and> x \<le> c),
        (\<lambda>x. pydiv (d - x) (d - c), \<lambda>x. c < x \<and> x < d),
        (\<lambda>x. Some 0, \<lambda>x. True)] \<rparr>"

definition TrapezoidalXmu_setXFunction :: "xmu \<Rightarrow> real \<Rightarrow> real \<Rightarrow> real \<Rightarrow> real \<Rightarrow> xmu" where
  "TrapezoidalXmu_setXFunction self a b c d =
     self\<lparr> xequals :=
       (\<lambda>alpha. Interval_new (Fin ((alpha * b) - (alpha * a) + a))
                              (Fin ((- alpha * d) + (alpha * c) + d)) False False) \<rparr>"

definition TrapezoidalXmu ::
  "sset \<Rightarrow> real option \<Rightarrow> real option \<Rightarrow> real option \<Rightarrow> real option \<Rightarrow> error + xmu" where
  "TrapezoidalXmu u0 a b c d =
     (case Xmu_init u0 of Inl e \<Rightarrow> Inl e
      | Inr self \<Rightarrow>
         (case (a, b, c, d) of
            (Some a', Some b', Some c', Some d') \<Rightarrow>
              Inr (TrapezoidalXmu_setXFunction
                     (TrapezoidalXmu_setMuFunction self a' b' c' d') a' b' c' d')
          | _ \<Rightarrow> Inr self))"

text \<open>
  The triangular membership setter stores \<open>c = b\<close> and \<open>d = c\<close> and then uses the
  trapezoid's branches; it is written here with these two values named as there.
\<close>

definition TriangularXmu_setMuFunction :: "xmu \<Rightarrow> real \<Rightarrow> real \<Rightarrow> real \<Rightarrow> xmu" where
  "TriangularXmu_setMuFunction self a b c =
     (let self_c = b; self_d = c in
      self\<lparr> muequals :=
       [(\<lambda>x. pydiv (x - a) (b - a), \<lambda>x. a < x \<and> x < b),
        (\<lambda>x. Some 1, \<lambda>x. b \<le> x \<and> x \<le> self_c),
        (\<lambda>x. pydiv (self_d - x) (self_d - self_c), \<lambda>x. self_c < x \<and> x < self_d),
        (\<lambda>x. Some 0, \<lambda>x. True)] \<rparr>)"

definition TriangularXmu_setXFunction :: "xmu \<Rightarrow> real \<Rightarrow> real \<Rightarrow> real \<Rightarrow> xmu" where
  "TriangularXmu_setXFunction self a b c =
     self\<lparr> xequals :=
       (\<lambda>alpha. Interval_new (Fin ((alpha * b) - (alpha * a) + a))
                              (Fin ((- alpha * c) + (alpha * b) + c)) False False) \<rparr>"

definition TriangularXmu ::
  "sset \<Rightarrow> real option \<Rightarrow> real option \<Rightarrow> real option \<Rightarrow> error + xmu" where
  "TriangularXmu u0 a b c =
     (case Xmu_init u0 of Inl e \<Rightarrow> Inl e
      | Inr self \<Rightarrow>
         (case (a, b, c) of
            (Some a', Some b', Some c') \<Rightarrow>
              Inr (TriangularXmu_setXFunction
                     (TriangularXmu_setMuFunction self a' b' c') a' b' c')
          | _ \<Rightarrow> Inr self))"

section \<open>Set operations of the entity\<close>

text \<open>
  SymPy's operations on concrete sets, modelled up to the set of points denoted (the
  library also merges overlapping parts of a union, which changes no point).
  \<open>contains\<close> is membership of an end-point value.
\<close>

fun contains :: "sset \<Rightarrow> ext \<Rightarrow> bool" where
  "contains EmptySet p = False"
| "contains (FiniteSet q) p = (p = q)"
| "contains (Interval lo hi lopen ropen) p =
     ((if lopen then ext_lt lo p else ext_le lo p) \<and>
      (if ropen then ext_lt p hi else ext_le p hi))"
| "contains (Union s t) p = (contains s p \<or> contains t p)"

definition sset_union :: "sset \<Rightarrow> sset \<Rightarrow> sset" where
  "sset_union s t = (if is_EmptySet s then t else if is_EmptySet t then s else Union s t)"

fun intersect :: "sset \<Rightarrow> sset \<Rightarrow> sset" where
  "intersect EmptySet t = EmptySet"
| "intersect (Union s1 s2) t = sset_union (intersect s1 t) (intersect s2 t)"
| "intersect s EmptySet = EmptySet"
| "intersect s (Union t1 t2) = sset_union (intersect s t1) (intersect s t2)"
| "intersect (FiniteSet p) t = (if contains t p then FiniteSet p else EmptySet)"
| "intersect s (FiniteSet p) = (if contains s p then FiniteSet p else EmptySet)"
| "intersect (Interval lo1 hi1 lopen1 ropen1) (Interval lo2 hi2 lopen2 ropen2) =
     Interval_new (ext_max lo1 lo2) (ext_min hi1 hi2)
       (if ext_lt lo1 lo2 then lopen2 else if ext_lt lo2 lo1 then lopen1 else lopen1 \<or> lopen2)
       (if ext_lt hi1 hi2 then ropen1 else if ext_lt hi2 hi1 then ropen2 else ropen1 \<or> ropen2)"

fun complement :: "sset \<Rightarrow> sset" where
  "complement EmptySet = Interval NInf PInf True True"
| "complement (FiniteSet p) =
     sset_union (Interval_new NInf p True True) (Interval_new p PInf True True)"
| "complement (Interval lo hi lopen ropen) =
     sset_union (Interval_new NInf lo True (\<not> lopen)) (Interval_new hi PInf (\<not> ropen) True)"
| "complement (Union s t) = intersect (complement s) (complement t)"

text \<open>The set difference \<open>s - t\<close> is \<open>s.intersect(t.complement)\<close>.\<close>

definition sset_sub :: "sset \<Rightarrow> sset \<Rightarrow> sset" where
  "sset_sub s t = intersect s (complement t)"

text \<open>
  The four set operations combine the two alpha-cut expressions and wrap the result in a
  \<open>BasicXmu\<close> over the receiver's universe. The combination stays an expression in
  \<open>ALPHA\<close>: its value at an alpha is the combination of the operands' values there.
\<close>

definition intersectX :: "xmu \<Rightarrow> xmu \<Rightarrow> error + xmu" where
  "intersectX self target =
     (let i1 = xequals target; i2 = xequals self
      in BasicXmu (u self) (Some (\<lambda>alpha. intersect (i1 alpha) (i2 alpha))))"

definition differenceX :: "xmu \<Rightarrow> xmu \<Rightarrow> error + xmu" where
  "differenceX self target =
     (let i1 = xequals target; i2 = xequals self;
          result = (\<lambda>alpha. sset_sub (i2 alpha) (i1 alpha))
      in BasicXmu (u self) (Some result))"

definition unionX :: "xmu \<Rightarrow> xmu \<Rightarrow> error + xmu" where
  "unionX self target =
     (let i1 = xequals target; i2 = xequals self
      in BasicXmu (u self) (Some (\<lambda>alpha. sset_union (i1 alpha) (i2 alpha))))"

definition negateX :: "xmu \<Rightarrow> error + xmu" where
  "negateX self =
     (let result = (\<lambda>alpha. sset_sub (u self) (xequals self alpha))
      in BasicXmu (u self) (Some result))"

section \<open>Interval arithmetic at one alpha\<close>

text \<open>
  An mpmath interval is its pair of end points. The operators are mpmath's, over exact
  numbers. Addition and subtraction are given on all end points (an undefined sum of
  opposite infinities becomes the infinity of the bound's own side). Multiplication and
  division are given exactly on finite operands; on an operand with an infinite end point
  the model returns the whole line, which encloses mpmath's result. Division by an
  interval that contains zero follows mpmath: the whole line, or a half line when zero is
  an end point of the divisor and the dividend has one sign.
\<close>

type_synonym mpi = "ext \<times> ext"

fun ext_neg :: "ext \<Rightarrow> ext" where
  "ext_neg NInf = PInf"
| "ext_neg PInf = NInf"
| "ext_neg (Fin x) = Fin (- x)"

fun add_down :: "ext \<Rightarrow> ext \<Rightarrow> ext" where
  "add_down (Fin x) (Fin y) = Fin (x + y)"
| "add_down NInf _ = NInf"
| "add_down _ NInf = NInf"
| "add_down _ _ = PInf"

fun add_up :: "ext \<Rightarrow> ext \<Rightarrow> ext" where
  "add_up (Fin x) (Fin y) = Fin (x + y)"
| "add_up PInf _ = PInf"
| "add_up _ PInf = PInf"
| "add_up _ _ = NInf"

fun mpi_add :: "mpi \<Rightarrow> mpi \<Rightarrow> mpi" where
  "mpi_add (sa, sb) (ta, tb) = (add_down sa ta, add_up sb tb)"

fun mpi_sub :: "mpi \<Rightarrow> mpi \<Rightarrow> mpi" where
  "mpi_sub (sa, sb) (ta, tb) = (add_down sa (ext_neg tb), add_up sb (ext_neg ta))"

fun mpi_mul :: "mpi \<Rightarrow> mpi \<Rightarrow> mpi" where
  "mpi_mul (Fin sa, Fin sb) (Fin ta, Fin tb) =
     (Fin (min (min (sa * ta) (sa * tb)) (min (sb * ta) (sb * tb))),
      Fin (max (max (sa * ta) (sa * tb)) (max (sb * ta) (sb * tb))))"
| "mpi_mul _ _ = (NInf, PInf)"

text \<open>Division of finite end points by a divisor \<open>[ta, tb]\<close> with \<open>0 \<le> ta\<close>.\<close>

definition div_nonneg :: "real \<Rightarrow> real \<Rightarrow> real \<Rightarrow> real \<Rightarrow> mpi" where
  "div_nonneg sa sb ta tb =
     (if ta = 0 then
        (if sa < 0 \<and> 0 < sb then (NInf, PInf)
         else if ta = tb then (NInf, PInf)
         else if sa \<ge> 0 then (Fin (sa / tb), PInf)
         else (NInf, Fin (sb / tb)))
      else
        (if sa \<ge> 0 then (Fin (sa / tb), Fin (sb / ta))
         else if sb \<le> 0 then (Fin (sa / ta), Fin (sb / tb))
         else (Fin (sa / ta), Fin (sb / ta))))"

fun mpi_div :: "mpi \<Rightarrow> mpi \<Rightarrow> mpi" where
  "mpi_div (Fin sa, Fin sb) (Fin ta, Fin tb) =
     (if sa = 0 \<and> sb = 0 then
        (if (ta < 0 \<and> 0 < tb) \<or> ta = 0 \<or> tb = 0 then (NInf, PInf) else (Fin 0, Fin 0))
      else if ta < 0 \<and> 0 < tb then (NInf, PInf)
      else if ta < 0 then div_nonneg (- sb) (- sa) (- tb) (- ta)
      else div_nonneg sa sb ta tb)"
| "mpi_div _ _ = (NInf, PInf)"

text \<open>
  \<open>to_mpi\<close> exists on intervals only; the other conversion builds the mpmath interval
  from \<open>inf\<close> and \<open>sup\<close>.
\<close>

fun to_mpi :: "sset \<Rightarrow> error + mpi" where
  "to_mpi (Interval lo hi lopen ropen) = Inr (lo, hi)"
| "to_mpi _ = Inl AttributeError"

definition inf_sup_mpi :: "sset \<Rightarrow> error + mpi" where
  "inf_sup_mpi s =
     (case sset_inf s of Inl e \<Rightarrow> Inl e
      | Inr lo \<Rightarrow> (case sset_sup s of Inl e \<Rightarrow> Inl e | Inr hi \<Rightarrow> Inr (lo, hi)))"

text \<open>
  The wrapper of the five operations. \<open>operation\<close> is the interval operator that the
  operator string selects; it may raise. The result is \<open>Inr None\<close> for Python's
  \<open>None\<close>, \<open>Inr (Some e)\<close> for a returned entity and \<open>Inl\<close> for an exception.
\<close>

definition arithmeticalOperationX ::
  "(mpi \<Rightarrow> mpi \<Rightarrow> error + mpi) \<Rightarrow> xmu \<Rightarrow> xmu \<Rightarrow> real \<Rightarrow> error + xmu option" where
  "arithmeticalOperationX operation self i2 alpha =
     (let res = xequals self alpha; res2 = xequals i2 alpha in
      if \<not> is_EmptySet res \<and> \<not> is_EmptySet res2 then
        (let conv = (if \<not> is_FiniteSet res \<and> \<not> is_FiniteSet res2 then to_mpi else inf_sup_mpi)
         in case conv res of Inl e \<Rightarrow> Inl e
            | Inr m \<Rightarrow> (case conv res2 of Inl e \<Rightarrow> Inl e
            | Inr m2 \<Rightarrow> (case operation m m2 of Inl e \<Rightarrow> Inl e
            | Inr (ra, rb) \<Rightarrow>
                (case BasicXmu (u self) (Some (\<lambda>al. Interval_new ra rb False False)) of
                   Inl e \<Rightarrow> Inl e | Inr r \<Rightarrow> Inr (Some r)))))
      else Inr None)"

definition multiplyX :: "xmu \<Rightarrow> xmu \<Rightarrow> real \<Rightarrow> error + xmu option" where
  "multiplyX self i2 alpha = arithmeticalOperationX (\<lambda>s t. Inr (mpi_mul s t)) self i2 alpha"

text \<open>
  mpmath's interval power goes through logarithm and exponential and raises on a base
  with a negative part; it is taken as the parameter \<open>mpi_pow\<close>.
\<close>

definition powX ::
  "(mpi \<Rightarrow> mpi \<Rightarrow> error + mpi) \<Rightarrow> xmu \<Rightarrow> xmu \<Rightarrow> real \<Rightarrow> error + xmu option" where
  "powX mpi_pow self i2 alpha = arithmeticalOperationX mpi_pow self i2 alpha"

definition addX :: "xmu \<Rightarrow> xmu \<Rightarrow> real \<Rightarrow> error + xmu option" where
  "addX self i2 alpha = arithmeticalOperationX (\<lambda>s t. Inr (mpi_add s t)) self i2 alpha"

definition subX :: "xmu \<Rightarrow> xmu \<Rightarrow> real \<Rightarrow> error + xmu option" where
  "subX self i2 alpha = arithmeticalOperationX (\<lambda>s t. Inr (mpi_sub s t)) self i2 alpha"

definition divX :: "xmu \<Rightarrow> xmu \<Rightarrow> real \<Rightarrow> error + xmu option" where
  "divX self i2 alpha = arithmeticalOperationX (\<lambda>s t. Inr (mpi_div s t)) self i2 alpha"

section \<open>Properties\<close>

subsection \<open>Auxiliary facts\<close>

lemma ext_lt_Fin [simp]: "ext_lt (Fin x) (Fin y) = (x < y)"
  by (auto simp: ext_lt_def)

lemma elems_Interval_new:
  "elems (Interval_new lo hi lopen ropen) = elems (Interval lo hi lopen ropen)"
  by (cases lo; cases hi) (auto simp: ext_lt_def)

lemma elems_closed: "elems (Interval_new (Fin l) (Fin h) False False) = {l..h}"
  by (auto simp: elems_Interval_new)

subsection \<open>The trapezoid's alpha-cut function\<close>

text \<open>
  C1. The entity that \<open>TrapezoidalXmu\<close> constructs from control points \<open>a, b, c, d\<close>
  has, at every alpha, the alpha-cut \<open>[alpha*(b-a)+a, d - alpha*(d-c)]\<close>: the value
  of its alpha-cut function is what the interval constructor makes of these two bounds,
  and its points are exactly the closed real interval between them. This holds for every
  universe on which construction succeeds and needs no ordering of the control points.
\<close>

theorem trapezoidal_alpha_cut:
  assumes "TrapezoidalXmu u0 (Some a) (Some b) (Some c) (Some d) = Inr e"
  shows "xequals e alpha =
           Interval_new (Fin (alpha * (b - a) + a)) (Fin (d - alpha * (d - c))) False False
         \<and> elems (xequals e alpha) = {alpha * (b - a) + a .. d - alpha * (d - c)}"
proof -
  have l: "alpha * b - alpha * a + a = alpha * (b - a) + a"
    and h: "- alpha * d + alpha * c + d = d - alpha * (d - c)"
    by (simp_all add: algebra_simps)
  from assms have "xequals e = (\<lambda>al. Interval_new (Fin (al * b - al * a + a))
                              (Fin (- al * d + al * c + d)) False False)"
    by (auto simp: TrapezoidalXmu_def TrapezoidalXmu_setXFunction_def
          TrapezoidalXmu_setMuFunction_def split: sum.splits)
  then have "xequals e alpha =
      Interval_new (Fin (alpha * (b - a) + a)) (Fin (d - alpha * (d - c))) False False"
    using l h by simp
  then show ?thesis by (simp only: elems_closed simp_thms)
qed

theorem trapezoidal_alpha_cut_witness:
  "TrapezoidalXmu (Interval (Fin 0) (Fin 10) False False) (Some 1) (Some 2) (Some 5) (Some 9)
     \<noteq> Inl AttributeError
   \<and> xequals (projr (TrapezoidalXmu (Interval (Fin 0) (Fin 10) False False)
        (Some 1) (Some 2) (Some 5) (Some 9))) (1/2) = Interval (Fin (3/2)) (Fin 7) False False"
proof -
  let ?u = "Interval (Fin 0) (Fin 10) False False"
  obtain e where e: "TrapezoidalXmu ?u (Some 1) (Some 2) (Some 5) (Some 9) = Inr e"
    by (simp add: TrapezoidalXmu_def Xmu_init_def)
  from trapezoidal_alpha_cut [OF e, of "1/2"] e show ?thesis by simp
qed


subsection \<open>The alpha-cut functions of the four shapes\<close>

declare Interval_new.simps [simp del]

lemma elems_lower_mono:
  "l1 \<le> l2 \<Longrightarrow> elems (Interval_new (Fin l2) hi False False) \<subseteq> elems (Interval_new (Fin l1) hi False False)"
  by (auto simp: elems_Interval_new)

lemma elems_upper_mono:
  "h2 \<le> h1 \<Longrightarrow> elems (Interval_new lo (Fin h2) False False) \<subseteq> elems (Interval_new lo (Fin h1) False False)"
  by (auto simp: elems_Interval_new)

lemma elems_both_mono:
  "l1 \<le> l2 \<Longrightarrow> h2 \<le> h1 \<Longrightarrow>
   elems (Interval_new (Fin l2) (Fin h2) False False) \<subseteq> elems (Interval_new (Fin l1) (Fin h1) False False)"
  by (auto simp: elems_Interval_new)

lemma Xmu_init_Inr:
  "Xmu_init u0 = Inr self \<Longrightarrow>
     (\<exists>lo hi lopen ropen. u0 = Interval lo hi lopen ropen) \<and> u self = u0"
  by (cases u0) (auto simp: Xmu_init_def)

lemma upward_xequals:
  assumes "UpwardGradientXmu u0 (Some a) (Some b) = Inr e"
  shows "\<exists>lo hi lopen ropen. u0 = Interval lo hi lopen ropen \<and>
           xequals e = (\<lambda>al. Interval_new (Fin (al * b - al * a + a)) hi False False) \<and>
           muequals e = [(\<lambda>x. pydiv (x - a) (b - a), \<lambda>x. a < x \<and> x < b),
                         (\<lambda>x. Some 1, \<lambda>x. x \<ge> b), (\<lambda>x. Some 0, \<lambda>x. True)]"
  using assms
  by (cases u0) (auto simp: UpwardGradientXmu_def Xmu_init_def UpwardGradientXmu_setXFunction_def
      UpwardGradientXmu_setMuFunction_def split: sum.splits)

lemma downward_xequals:
  assumes "DownwardGradientXmu u0 (Some a) (Some b) = Inr e"
  shows "\<exists>lo hi lopen ropen. u0 = Interval lo hi lopen ropen \<and>
           xequals e = (\<lambda>al. Interval_new lo (Fin (- al * b + al * a + b)) False False)"
  using assms
  by (cases u0) (auto simp: DownwardGradientXmu_def Xmu_init_def DownwardGradientXmu_setXFunction_def
      DownwardGradientXmu_setMuFunction_def split: sum.splits)

lemma trapezoidal_xequals:
  assumes "TrapezoidalXmu u0 (Some a) (Some b) (Some c) (Some d) = Inr e"
  shows "xequals e = (\<lambda>al. Interval_new (Fin (al * b - al * a + a))
                              (Fin (- al * d + al * c + d)) False False) \<and>
         muequals e = [(\<lambda>x. pydiv (x - a) (b - a), \<lambda>x. a < x \<and> x < b),
                       (\<lambda>x. Some 1, \<lambda>x. b \<le> x \<and> x \<le> c),
                       (\<lambda>x. pydiv (d - x) (d - c), \<lambda>x. c < x \<and> x < d),
                       (\<lambda>x. Some 0, \<lambda>x. True)]"
  using assms
  by (auto simp: TrapezoidalXmu_def TrapezoidalXmu_setXFunction_def
          TrapezoidalXmu_setMuFunction_def split: sum.splits)

lemma triangular_xequals:
  assumes "TriangularXmu u0 (Some a) (Some b) (Some c) = Inr e"
  shows "xequals e = (\<lambda>al. Interval_new (Fin (al * b - al * a + a))
                              (Fin (- al * c + al * b + c)) False False) \<and>
         muequals e = [(\<lambda>x. pydiv (x - a) (b - a), \<lambda>x. a < x \<and> x < b),
                       (\<lambda>x. Some 1, \<lambda>x. b \<le> x \<and> x \<le> b),
                       (\<lambda>x. pydiv (c - x) (c - b), \<lambda>x. b < x \<and> x < c),
                       (\<lambda>x. Some 0, \<lambda>x. True)]"
  using assms
  by (auto simp: TriangularXmu_def TriangularXmu_setXFunction_def
          TriangularXmu_setMuFunction_def split: sum.splits)

lemma ext_le_Fin [simp]: "ext_le (Fin x) (Fin y) = (x \<le> y)" by simp

lemma ext_le_trans_Fin: "ext_le lo (Fin x) \<Longrightarrow> x \<le> y \<Longrightarrow> ext_le lo (Fin y)"
  by (cases lo) auto

lemma rising_mono: "a \<le> b \<Longrightarrow> (al1::real) < al2 \<Longrightarrow> al1 * b - al1 * a + a \<le> al2 * b - al2 * a + a"
proof -
  assume "a \<le> b" "al1 < al2"
  then have "al1 * (b - a) \<le> al2 * (b - a)" by (simp add: mult_right_mono)
  then show ?thesis by (simp add: algebra_simps)
qed

lemma falling_mono: "c \<le> d \<Longrightarrow> (al1::real) < al2 \<Longrightarrow> - al2 * d + al2 * c + d \<le> - al1 * d + al1 * c + d"
proof -
  assume "c \<le> d" "al1 < al2"
  then have "al1 * (d - c) \<le> al2 * (d - c)" by (simp add: mult_right_mono)
  then show ?thesis by (simp add: algebra_simps)
qed

subsection \<open>Monotonicity\<close>

text \<open>
  C5. For each of the four shape generators, with ordered control points, and for
  \<open>alpha1 < alpha2\<close> in \<open>[0,1]\<close>, the points of the alpha-cut at \<open>alpha2\<close> are
  points of the alpha-cut at \<open>alpha1\<close>.
\<close>

theorem alpha_cut_monotone:
  assumes "0 \<le> alpha1" "alpha1 < alpha2" "alpha2 \<le> 1"
  shows "(a \<le> b \<and> UpwardGradientXmu u0 (Some a) (Some b) = Inr e
            \<longrightarrow> elems (xequals e alpha2) \<subseteq> elems (xequals e alpha1))
       \<and> (a \<le> b \<and> DownwardGradientXmu u0 (Some a) (Some b) = Inr e
            \<longrightarrow> elems (xequals e alpha2) \<subseteq> elems (xequals e alpha1))
       \<and> (a \<le> b \<and> b \<le> c \<and> c \<le> d \<and> TrapezoidalXmu u0 (Some a) (Some b) (Some c) (Some d) = Inr e
            \<longrightarrow> elems (xequals e alpha2) \<subseteq> elems (xequals e alpha1))
       \<and> (a \<le> b \<and> b \<le> c \<and> TriangularXmu u0 (Some a) (Some b) (Some c) = Inr e
            \<longrightarrow> elems (xequals e alpha2) \<subseteq> elems (xequals e alpha1))"
proof (intro conjI impI)
  assume h: "a \<le> b \<and> UpwardGradientXmu u0 (Some a) (Some b) = Inr e"
  from upward_xequals [of u0 a b e] h obtain hi where
    "xequals e = (\<lambda>al. Interval_new (Fin (al * b - al * a + a)) hi False False)" by blast
  moreover from h assms have "alpha1 * b - alpha1 * a + a \<le> alpha2 * b - alpha2 * a + a"
    by (blast intro: rising_mono)
  ultimately show "elems (xequals e alpha2) \<subseteq> elems (xequals e alpha1)"
    by (simp add: elems_lower_mono elems_upper_mono)
next
  assume h: "a \<le> b \<and> DownwardGradientXmu u0 (Some a) (Some b) = Inr e"
  from downward_xequals [of u0 a b e] h obtain lo where
    "xequals e = (\<lambda>al. Interval_new lo (Fin (- al * b + al * a + b)) False False)" by blast
  moreover from h assms have "- alpha2 * b + alpha2 * a + b \<le> - alpha1 * b + alpha1 * a + b"
    by (blast intro: falling_mono)
  ultimately show "elems (xequals e alpha2) \<subseteq> elems (xequals e alpha1)"
    by (simp add: elems_lower_mono elems_upper_mono)
next
  assume h: "a \<le> b \<and> b \<le> c \<and> c \<le> d \<and> TrapezoidalXmu u0 (Some a) (Some b) (Some c) (Some d) = Inr e"
  then have x: "xequals e = (\<lambda>al. Interval_new (Fin (al * b - al * a + a))
                              (Fin (- al * d + al * c + d)) False False)"
    using trapezoidal_xequals by blast
  from h assms have "alpha1 * b - alpha1 * a + a \<le> alpha2 * b - alpha2 * a + a"
    and "- alpha2 * d + alpha2 * c + d \<le> - alpha1 * d + alpha1 * c + d"
    by (blast intro: rising_mono falling_mono)+
  with x show "elems (xequals e alpha2) \<subseteq> elems (xequals e alpha1)"
    by (simp add: elems_both_mono)
next
  assume h: "a \<le> b \<and> b \<le> c \<and> TriangularXmu u0 (Some a) (Some b) (Some c) = Inr e"
  then have x: "xequals e = (\<lambda>al. Interval_new (Fin (al * b - al * a + a))
                              (Fin (- al * c + al * b + c)) False False)"
    using triangular_xequals by blast
  from h assms have "alpha1 * b - alpha1 * a + a \<le> alpha2 * b - alpha2 * a + a"
    and "- alpha2 * c + alpha2 * b + c \<le> - alpha1 * c + alpha1 * b + c"
    by (blast intro: rising_mono falling_mono)+
  with x show "elems (xequals e alpha2) \<subseteq> elems (xequals e alpha1)"
    by (simp add: elems_both_mono)
qed

theorem alpha_cut_monotone_witness:
  "elems (xequals (projr (UpwardGradientXmu (Interval (Fin 0) (Fin 10) False False)
            (Some 2) (Some 5))) (3/4))
     \<subseteq> elems (xequals (projr (UpwardGradientXmu (Interval (Fin 0) (Fin 10) False False)
            (Some 2) (Some 5))) (1/4))
   \<and> elems (xequals (projr (DownwardGradientXmu (Interval (Fin 0) (Fin 10) False False)
            (Some 2) (Some 5))) (3/4))
     \<subseteq> elems (xequals (projr (DownwardGradientXmu (Interval (Fin 0) (Fin 10) False False)
            (Some 2) (Some 5))) (1/4))
   \<and> elems (xequals (projr (TrapezoidalXmu (Interval (Fin 0) (Fin 10) False False)
            (Some 2) (Some 5) (Some 6) (Some 8))) (3/4))
     \<subseteq> elems (xequals (projr (TrapezoidalXmu (Interval (Fin 0) (Fin 10) False False)
            (Some 2) (Some 5) (Some 6) (Some 8))) (1/4))
   \<and> elems (xequals (projr (TriangularXmu (Interval (Fin 0) (Fin 10) False False)
            (Some 2) (Some 5) (Some 8))) (3/4))
     \<subseteq> elems (xequals (projr (TriangularXmu (Interval (Fin 0) (Fin 10) False False)
            (Some 2) (Some 5) (Some 8))) (1/4))"
proof -
  let ?U = "Interval (Fin 0) (Fin 10) False False"
  have al: "(0::real) \<le> 1/4" "(1/4::real) < 3/4" "(3/4::real) \<le> 1" by simp_all
  obtain e1 where e1: "UpwardGradientXmu ?U (Some 2) (Some 5) = Inr e1"
    by (simp add: UpwardGradientXmu_def Xmu_init_def UpwardGradientXmu_setXFunction_def
        UpwardGradientXmu_setMuFunction_def)
  obtain e2 where e2: "DownwardGradientXmu ?U (Some 2) (Some 5) = Inr e2"
    by (simp add: DownwardGradientXmu_def Xmu_init_def DownwardGradientXmu_setXFunction_def
        DownwardGradientXmu_setMuFunction_def)
  obtain e3 where e3: "TrapezoidalXmu ?U (Some 2) (Some 5) (Some 6) (Some 8) = Inr e3"
    by (simp add: TrapezoidalXmu_def Xmu_init_def)
  obtain e4 where e4: "TriangularXmu ?U (Some 2) (Some 5) (Some 8) = Inr e4"
    by (simp add: TriangularXmu_def Xmu_init_def)
  have "elems (xequals e1 (3/4)) \<subseteq> elems (xequals e1 (1/4))"
    using alpha_cut_monotone [OF al, of 2 5 ?U e1] e1 by simp
  moreover have "elems (xequals e2 (3/4)) \<subseteq> elems (xequals e2 (1/4))"
    using alpha_cut_monotone [OF al, of 2 5 ?U e2] e2 by simp
  moreover have "elems (xequals e3 (3/4)) \<subseteq> elems (xequals e3 (1/4))"
    using alpha_cut_monotone [OF al, of 2 5 ?U e3 6 8] e3 by simp
  moreover have "elems (xequals e4 (3/4)) \<subseteq> elems (xequals e4 (1/4))"
    using alpha_cut_monotone [OF al, of 2 5 ?U e4 8] e4 by simp
  ultimately show ?thesis using e1 e2 e3 e4 by simp
qed

subsection \<open>The triangle is a trapezoid with a collapsed plateau\<close>

text \<open>
  C7. For every universe and control points, the entity built by
  \<open>TriangularXmu(u, a, b, c)\<close> has the same membership function, the same alpha-cut
  function and the same universe as the one built by \<open>TrapezoidalXmu(u, a, b, b, c)\<close>,
  and its alpha-cut at every alpha is \<open>[alpha*(b-a)+a, c - alpha*(c-b)]\<close>.
\<close>

theorem triangular_is_trapezoidal:
  assumes "TriangularXmu u0 (Some a) (Some b) (Some c) = Inr e1"
      and "TrapezoidalXmu u0 (Some a) (Some b) (Some b) (Some c) = Inr e2"
  shows "muequals e1 = muequals e2 \<and> xequals e1 = xequals e2 \<and> u e1 = u e2
       \<and> (\<forall>alpha. xequals e1 alpha =
             Interval_new (Fin (alpha * (b - a) + a)) (Fin (c - alpha * (c - b))) False False)"
proof -
  have l: "\<And>al. al * b - al * a + a = al * (b - a) + a"
    and h: "\<And>al. - al * c + al * b + c = c - al * (c - b)"
    by (simp_all add: algebra_simps)
  from assms have "u e1 = u e2"
    by (auto simp: TriangularXmu_def TrapezoidalXmu_def TriangularXmu_setXFunction_def
        TriangularXmu_setMuFunction_def TrapezoidalXmu_setXFunction_def
        TrapezoidalXmu_setMuFunction_def split: sum.splits)
  with triangular_xequals [OF assms(1)] trapezoidal_xequals [OF assms(2)] l h
  show ?thesis by simp
qed

theorem triangular_is_trapezoidal_witness:
  "muequals (projr (TriangularXmu (Interval (Fin 0) (Fin 10) False False) (Some 2) (Some 5) (Some 8)))
     = muequals (projr (TrapezoidalXmu (Interval (Fin 0) (Fin 10) False False)
          (Some 2) (Some 5) (Some 5) (Some 8)))
   \<and> xequals (projr (TriangularXmu (Interval (Fin 0) (Fin 10) False False) (Some 2) (Some 5) (Some 8)))
     = xequals (projr (TrapezoidalXmu (Interval (Fin 0) (Fin 10) False False)
          (Some 2) (Some 5) (Some 5) (Some 8)))
   \<and> xequals (projr (TriangularXmu (Interval (Fin 0) (Fin 10) False False) (Some 2) (Some 5) (Some 8))) 0
     = Interval (Fin 2) (Fin 8) False False
   \<and> xequals (projr (TriangularXmu (Interval (Fin 0) (Fin 10) False False) (Some 2) (Some 5) (Some 8))) 1
     = FiniteSet (Fin 5)"
proof -
  let ?U = "Interval (Fin 0) (Fin 10) False False"
  obtain e1 where e1: "TriangularXmu ?U (Some 2) (Some 5) (Some 8) = Inr e1"
    by (simp add: TriangularXmu_def Xmu_init_def)
  obtain e2 where e2: "TrapezoidalXmu ?U (Some 2) (Some 5) (Some 5) (Some 8) = Inr e2"
    by (simp add: TrapezoidalXmu_def Xmu_init_def)
  note t = triangular_is_trapezoidal [OF e1 e2]
  from t have "xequals e1 0 = Interval_new (Fin (0 * (5 - 2) + 2)) (Fin (8 - 0 * (8 - 5))) False False"
    by blast
  then have c0: "xequals e1 0 = Interval (Fin 2) (Fin 8) False False"
    by (simp add: Interval_new.simps)
  from t have "xequals e1 1 = Interval_new (Fin (1 * (5 - 2) + 2)) (Fin (8 - 1 * (8 - 5))) False False"
    by blast
  then have c1: "xequals e1 1 = FiniteSet (Fin 5)"
    by (simp add: Interval_new.simps)
  from t have "muequals e1 = muequals e2" "xequals e1 = xequals e2" by blast+
  with c0 c1 e1 e2 show ?thesis by simp
qed


subsection \<open>The upward gradient with equal control points\<close>

text \<open>
  C10. For \<open>UpwardGradientXmu\<close> constructed with \<open>a = b\<close>: the alpha-cut function
  is, at every alpha, the interval from \<open>a\<close> to the upper end of the universe; and
  evaluating the membership function at any \<open>x\<close> never selects the first branch (index
  0, the quotient by \<open>b - a = 0\<close>), whose guard \<open>a < x < b\<close> is unsatisfiable: it
  selects the second branch with value 1 when \<open>x \<ge> b\<close> and the last branch with value 0
  otherwise.
\<close>

theorem upward_degenerate:
  assumes "UpwardGradientXmu u0 (Some a) (Some a) = Inr e"
  shows "\<exists>lo hi lopen ropen. u0 = Interval lo hi lopen ropen
           \<and> (\<forall>alpha. xequals e alpha = Interval_new (Fin a) hi False False)
           \<and> (\<forall>alpha. elems (xequals e alpha) = {x. a \<le> x \<and> ext_le (Fin x) hi})
           \<and> (\<forall>x. piecewise_eval (muequals e) 0 x =
                  (if x \<ge> a then Some (1, Some 1) else Some (2, Some 0)))"
proof -
  from upward_xequals [OF assms] obtain lo hi lopen ropen where
    u: "u0 = Interval lo hi lopen ropen"
    and x: "xequals e = (\<lambda>al. Interval_new (Fin (al * a - al * a + a)) hi False False)"
    and m: "muequals e = [(\<lambda>x. pydiv (x - a) (a - a), \<lambda>x. a < x \<and> x < a),
                         (\<lambda>x. Some 1, \<lambda>x. x \<ge> a), (\<lambda>x. Some 0, \<lambda>x. True)]"
    by blast
  from x have x': "\<And>alpha. xequals e alpha = Interval_new (Fin a) hi False False" by simp
  have "\<And>alpha. elems (xequals e alpha) = {x. a \<le> x \<and> ext_le (Fin x) hi}"
    by (simp add: x' elems_Interval_new)
  moreover from m have "\<And>x. piecewise_eval (muequals e) 0 x =
                  (if x \<ge> a then Some (1, Some 1) else Some (2, Some 0))"
    by simp
  ultimately show ?thesis using u x' by blast
qed

theorem upward_degenerate_witness:
  "xequals (projr (UpwardGradientXmu (Interval (Fin 0) (Fin 10) False False) (Some 4) (Some 4))) (1/2)
      = Interval (Fin 4) (Fin 10) False False
   \<and> piecewise_eval (muequals (projr (UpwardGradientXmu (Interval (Fin 0) (Fin 10) False False)
        (Some 4) (Some 4)))) 0 4 = Some (1, Some 1)
   \<and> piecewise_eval (muequals (projr (UpwardGradientXmu (Interval (Fin 0) (Fin 10) False False)
        (Some 4) (Some 4)))) 0 3 = Some (2, Some 0)"
proof -
  let ?U = "Interval (Fin 0) (Fin 10) False False"
  obtain e where e: "UpwardGradientXmu ?U (Some 4) (Some 4) = Inr e"
    by (simp add: UpwardGradientXmu_def Xmu_init_def UpwardGradientXmu_setXFunction_def
        UpwardGradientXmu_setMuFunction_def)
  from upward_degenerate [OF e] have
    x: "\<And>alpha. xequals e alpha = Interval_new (Fin 4) (Fin 10) False False"
    and m: "\<And>x. piecewise_eval (muequals e) 0 x =
                  (if x \<ge> 4 then Some (1, Some 1) else Some (2, Some 0))"
    by auto
  have "xequals e (1/2) = Interval (Fin 4) (Fin 10) False False"
    by (simp add: x Interval_new.simps)
  moreover have "piecewise_eval (muequals e) 0 4 = Some (1, Some 1)" by (simp add: m)
  moreover have "piecewise_eval (muequals e) 0 3 = Some (2, Some 0)" by (simp add: m)
  ultimately show ?thesis using e by simp
qed


subsection \<open>The points of the set operations\<close>

lemma contains_Fin: "contains s (Fin x) = (x \<in> elems s)"
  by (induction s) (auto split: ext.splits)

lemma contains_inf_elems: "contains t p \<Longrightarrow> p = Fin x \<Longrightarrow> x \<in> elems t"
  by (simp add: contains_Fin)

lemma elems_sset_union: "elems (sset_union s t) = elems s \<union> elems t"
  by (cases s; cases t) (auto simp: sset_union_def)

lemma elems_FiniteSet_cases: "elems (if c then FiniteSet p else EmptySet) = (if c then elems (FiniteSet p) else {})"
  by simp

lemma lower_max:
  "(if (if ext_lt lo1 lo2 then lopen2 else if ext_lt lo2 lo1 then lopen1 else lopen1 \<or> lopen2)
    then ext_lt (ext_max lo1 lo2) (Fin x) else ext_le (ext_max lo1 lo2) (Fin x))
   = ((if lopen1 then ext_lt lo1 (Fin x) else ext_le lo1 (Fin x)) \<and>
      (if lopen2 then ext_lt lo2 (Fin x) else ext_le lo2 (Fin x)))"
  by (cases lo1; cases lo2) (auto simp: ext_lt_def ext_max_def)

lemma upper_min:
  "(if (if ext_lt hi1 hi2 then ropen1 else if ext_lt hi2 hi1 then ropen2 else ropen1 \<or> ropen2)
    then ext_lt (Fin x) (ext_min hi1 hi2) else ext_le (Fin x) (ext_min hi1 hi2))
   = ((if ropen1 then ext_lt (Fin x) hi1 else ext_le (Fin x) hi1) \<and>
      (if ropen2 then ext_lt (Fin x) hi2 else ext_le (Fin x) hi2))"
  by (cases hi1; cases hi2) (auto simp: ext_lt_def ext_min_def)

lemma elems_intersect_intervals:
  "elems (intersect (Interval lo1 hi1 lopen1 ropen1) (Interval lo2 hi2 lopen2 ropen2))
     = elems (Interval lo1 hi1 lopen1 ropen1) \<inter> elems (Interval lo2 hi2 lopen2 ropen2)"
proof -
  have "\<And>x. x \<in> elems (intersect (Interval lo1 hi1 lopen1 ropen1) (Interval lo2 hi2 lopen2 ropen2))
          \<longleftrightarrow> x \<in> elems (Interval lo1 hi1 lopen1 ropen1) \<inter> elems (Interval lo2 hi2 lopen2 ropen2)"
    by (simp only: intersect.simps elems_Interval_new elems.simps mem_Collect_eq Int_iff
          lower_max upper_min) blast
  then show ?thesis by blast
qed

lemma elems_intersect: "elems (intersect s t) = elems s \<inter> elems t"
proof (induction s t rule: intersect.induct)
  case (7 lo1 hi1 lopen1 ropen1 lo2 hi2 lopen2 ropen2)
  show ?case by (rule elems_intersect_intervals)
qed (auto simp: elems_sset_union contains_Fin split: ext.splits)

lemma elems_complement: "elems (complement s) = - elems s"
proof (induction s)
  case EmptySet
  show ?case by (auto simp: ext_lt_def)
next
  case (FiniteSet p)
  show ?case by (cases p) (auto simp: elems_sset_union elems_Interval_new ext_lt_def)
next
  case (Interval lo hi lopen ropen)
  show ?case
    by (cases lo; cases hi) (auto simp: elems_sset_union elems_Interval_new ext_lt_def)
next
  case (Union s t)
  then show ?case by (simp add: elems_intersect)
qed

lemma elems_sset_sub: "elems (sset_sub s t) = elems s - elems t"
  by (auto simp: sset_sub_def elems_intersect elems_complement)

subsection \<open>Operand order of the set difference\<close>

text \<open>
  C6. For a receiver and a target, the entity that \<open>differenceX\<close> returns keeps the
  receiver's universe, and its alpha-cut function is, at every alpha, the receiver's
  alpha-cut minus the target's (this minus target): as a value it is the library's
  difference of the two sets in that order, and its points are the points of the
  receiver's cut that are not points of the target's cut.
\<close>

theorem differenceX_this_minus_target:
  assumes "differenceX self target = Inr r"
  shows "u r = u self
       \<and> (\<forall>alpha. xequals r alpha = sset_sub (xequals self alpha) (xequals target alpha))
       \<and> (\<forall>alpha. elems (xequals r alpha) = elems (xequals self alpha) - elems (xequals target alpha))"
proof -
  from assms have "u r = u self"
    and "xequals r = (\<lambda>alpha. sset_sub (xequals self alpha) (xequals target alpha))"
    by (auto simp: differenceX_def BasicXmu_def Xmu_init_def Let_def split: sum.splits)
  then show ?thesis by (simp add: elems_sset_sub)
qed

theorem differenceX_this_minus_target_witness:
  "elems (xequals (projr (differenceX
      \<lparr> u = Interval (Fin 0) (Fin 10) False False, muequals = [(\<lambda>x. Some 0, \<lambda>x. True)],
        xequals = (\<lambda>alpha. Interval (Fin 0) (Fin 10) False False) \<rparr>
      \<lparr> u = Interval (Fin 0) (Fin 10) False False, muequals = [(\<lambda>x. Some 0, \<lambda>x. True)],
        xequals = (\<lambda>alpha. Interval (Fin 2) (Fin 5) False False) \<rparr>)) (1/2))
   = {0..10} - {2..5}"
proof -
  let ?A = "\<lparr> u = Interval (Fin 0) (Fin 10) False False, muequals = [(\<lambda>x. Some 0, \<lambda>x. True)],
        xequals = (\<lambda>alpha. Interval (Fin 0) (Fin 10) False False) \<rparr>"
  let ?B = "\<lparr> u = Interval (Fin 0) (Fin 10) False False, muequals = [(\<lambda>x. Some 0, \<lambda>x. True)],
        xequals = (\<lambda>alpha. Interval (Fin 2) (Fin 5) False False) \<rparr>"
  obtain r where r: "differenceX ?A ?B = Inr r"
    by (simp add: differenceX_def BasicXmu_def Xmu_init_def)
  from differenceX_this_minus_target [OF r]
  have "elems (xequals r (1/2)) = elems (xequals ?A (1/2)) - elems (xequals ?B (1/2))" by blast
  moreover have "elems (xequals ?A (1/2)) = {0..10}" "elems (xequals ?B (1/2)) = {2..5}" by auto
  ultimately show ?thesis using r by simp
qed

subsection \<open>Construction performs no validation\<close>

text \<open>
  C9, as amended. For every universe that is an interval object and for every control
  points, in any order, each shape constructor returns an entity and raises nothing: no
  constructor compares control points. For the trapezoid the entity carries the branches
  and the bounds computed from the points as given.
\<close>

theorem trapezoidal_construction_unchecked:
  "(\<exists>e. UpwardGradientXmu (Interval lo hi lopen ropen) (Some a) (Some b) = Inr e)
   \<and> (\<exists>e. DownwardGradientXmu (Interval lo hi lopen ropen) (Some a) (Some b) = Inr e)
   \<and> (\<exists>e. TriangularXmu (Interval lo hi lopen ropen) (Some a) (Some b) (Some c) = Inr e)
   \<and> TrapezoidalXmu (Interval lo hi lopen ropen) (Some a) (Some b) (Some c) (Some d) =
     Inr \<lparr> u = Interval lo hi lopen ropen,
           muequals = [(\<lambda>x. pydiv (x - a) (b - a), \<lambda>x. a < x \<and> x < b),
                       (\<lambda>x. Some 1, \<lambda>x. b \<le> x \<and> x \<le> c),
                       (\<lambda>x. pydiv (d - x) (d - c), \<lambda>x. c < x \<and> x < d),
                       (\<lambda>x. Some 0, \<lambda>x. True)],
           xequals = (\<lambda>alpha. Interval_new (Fin ((alpha * b) - (alpha * a) + a))
                              (Fin ((- alpha * d) + (alpha * c) + d)) False False) \<rparr>"
  by (simp add: TrapezoidalXmu_def Xmu_init_def TrapezoidalXmu_setXFunction_def
      TrapezoidalXmu_setMuFunction_def UpwardGradientXmu_def UpwardGradientXmu_setXFunction_def
      UpwardGradientXmu_setMuFunction_def DownwardGradientXmu_def
      DownwardGradientXmu_setXFunction_def DownwardGradientXmu_setMuFunction_def
      TriangularXmu_def)

text \<open>
  The claim as stated fails: a trapezoid with \<open>b > c\<close> over the universe
  \<open>[0, 10]\<close> is constructed; its alpha-cut is \<open>[1, 9]\<close> at alpha 0 and empty at
  alpha 1.
\<close>

theorem misordered_trapezoid_constructed:
  "isl (TrapezoidalXmu (Interval (Fin 0) (Fin 10) False False) (Some 1) (Some 5) (Some 3) (Some 9))
     = False
   \<and> xequals (projr (TrapezoidalXmu (Interval (Fin 0) (Fin 10) False False)
        (Some 1) (Some 5) (Some 3) (Some 9))) 0 = Interval (Fin 1) (Fin 9) False False
   \<and> xequals (projr (TrapezoidalXmu (Interval (Fin 0) (Fin 10) False False)
        (Some 1) (Some 5) (Some 3) (Some 9))) 1 = EmptySet"
  by (simp add: TrapezoidalXmu_def Xmu_init_def TrapezoidalXmu_setXFunction_def
      TrapezoidalXmu_setMuFunction_def Interval_new.simps)


subsection \<open>The arithmetic wrapper\<close>

lemma arith_None_iff:
  "(arithmeticalOperationX operation A B alpha = Inr None)
     \<longleftrightarrow> (is_EmptySet (xequals A alpha) \<or> is_EmptySet (xequals B alpha))"
  by (auto simp: arithmeticalOperationX_def Let_def split: sum.splits prod.splits)

lemma is_EmptySet_elems: "is_EmptySet s \<Longrightarrow> elems s = {}"
  by (cases s) auto


lemma conv_plain:
  assumes "\<not> is_EmptySet s" "\<forall>s1 s2. s \<noteq> Union s1 s2"
  shows "\<exists>lo hi. inf_sup_mpi s = Inr (lo, hi) \<and> (\<not> is_FiniteSet s \<longrightarrow> to_mpi s = Inr (lo, hi))"
  using assms by (cases s) (auto simp: inf_sup_mpi_def)

lemma arith_plain:
  assumes un: "u A = Interval ulo uhi ul ur"
    and a: "\<not> is_EmptySet (xequals A alpha)" "\<forall>s1 s2. xequals A alpha \<noteq> Union s1 s2"
    and b: "\<not> is_EmptySet (xequals B alpha)" "\<forall>s1 s2. xequals B alpha \<noteq> Union s1 s2"
  shows "\<exists>m m2. inf_sup_mpi (xequals A alpha) = Inr m \<and> inf_sup_mpi (xequals B alpha) = Inr m2 \<and>
          arithmeticalOperationX operation A B alpha =
           (case operation m m2 of Inl e \<Rightarrow> Inl e
            | Inr (ra, rb) \<Rightarrow> Inr (Some \<lparr> u = u A, muequals = [(\<lambda>x. Some 0, \<lambda>x. True)],
                      xequals = (\<lambda>al. Interval_new ra rb False False) \<rparr>))"
proof -
  from conv_plain [OF a] obtain lo hi where
    m: "inf_sup_mpi (xequals A alpha) = Inr (lo, hi)"
       "\<not> is_FiniteSet (xequals A alpha) \<longrightarrow> to_mpi (xequals A alpha) = Inr (lo, hi)" by blast
  from conv_plain [OF b] obtain lo2 hi2 where
    m2: "inf_sup_mpi (xequals B alpha) = Inr (lo2, hi2)"
       "\<not> is_FiniteSet (xequals B alpha) \<longrightarrow> to_mpi (xequals B alpha) = Inr (lo2, hi2)" by blast
  have "arithmeticalOperationX operation A B alpha =
           (case operation (lo, hi) (lo2, hi2) of Inl e \<Rightarrow> Inl e
            | Inr (ra, rb) \<Rightarrow> Inr (Some \<lparr> u = u A, muequals = [(\<lambda>x. Some 0, \<lambda>x. True)],
                      xequals = (\<lambda>al. Interval_new ra rb False False) \<rparr>))"
    using a(1) b(1) m m2 un
    by (auto simp: arithmeticalOperationX_def Let_def BasicXmu_def Xmu_init_def
        split: sum.splits prod.splits)
  with m(1) m2(1) show ?thesis by blast
qed




lemma triangular_Inr:
  "TriangularXmu (Interval lo hi lopen ropen) (Some a) (Some b) (Some c) =
     Inr \<lparr> u = Interval lo hi lopen ropen,
           muequals = [(\<lambda>x. pydiv (x - a) (b - a), \<lambda>x. a < x \<and> x < b),
                       (\<lambda>x. Some 1, \<lambda>x. b \<le> x \<and> x \<le> b),
                       (\<lambda>x. pydiv (c - x) (c - b), \<lambda>x. b < x \<and> x < c),
                       (\<lambda>x. Some 0, \<lambda>x. True)],
           xequals = (\<lambda>alpha. Interval_new (Fin ((alpha * b) - (alpha * a) + a))
                              (Fin ((- alpha * c) + (alpha * b) + c)) False False) \<rparr>"
  by (simp add: TriangularXmu_def Xmu_init_def TriangularXmu_setXFunction_def
      TriangularXmu_setMuFunction_def)



subsection \<open>Division by an interval that contains zero\<close>





lemma Interval_new_infinite:
  "ra = NInf \<or> rb = PInf \<Longrightarrow> ext_le ra rb \<Longrightarrow> ra \<noteq> rb \<Longrightarrow>
   Interval_new ra rb False False = Interval ra rb (ra = NInf) (rb = PInf)"
  by (cases ra; cases rb) (auto simp: Interval_new.simps ext_lt_def)







subsection \<open>Addition followed by subtraction\<close>

lemma Interval_new_fin:
  assumes "l \<le> h"
  shows "\<not> is_EmptySet (Interval_new (Fin l) (Fin h) False False)"
    and "\<forall>s1 s2. Interval_new (Fin l) (Fin h) False False \<noteq> Union s1 s2"
    and "inf_sup_mpi (Interval_new (Fin l) (Fin h) False False) = Inr (Fin l, Fin h)"
  using assms by (auto simp: Interval_new.simps inf_sup_mpi_def)

lemma add_fin:
  assumes un: "u A = Interval ulo uhi ul ur"
    and a: "xequals A alpha = Interval_new (Fin la) (Fin ha) False False" "la \<le> ha"
    and b: "xequals B alpha = Interval_new (Fin lb) (Fin hb) False False" "lb \<le> hb"
  shows "addX A B alpha = Inr (Some \<lparr> u = u A, muequals = [(\<lambda>x. Some 0, \<lambda>x. True)],
            xequals = (\<lambda>al. Interval_new (Fin (la + lb)) (Fin (ha + hb)) False False) \<rparr>)"
proof -
  from arith_plain [OF un, of alpha B "\<lambda>s t. Inr (mpi_add s t)"] a b
  show ?thesis by (auto simp: addX_def Interval_new_fin)
qed

lemma sub_fin:
  assumes un: "u A = Interval ulo uhi ul ur"
    and a: "xequals A alpha = Interval_new (Fin la) (Fin ha) False False" "la \<le> ha"
    and b: "xequals B alpha = Interval_new (Fin lb) (Fin hb) False False" "lb \<le> hb"
  shows "subX A B alpha = Inr (Some \<lparr> u = u A, muequals = [(\<lambda>x. Some 0, \<lambda>x. True)],
            xequals = (\<lambda>al. Interval_new (Fin (la - hb)) (Fin (ha - lb)) False False) \<rparr>)"
proof -
  from arith_plain [OF un, of alpha B "\<lambda>s t. Inr (mpi_sub s t)"] a b
  show ?thesis by (auto simp: subX_def Interval_new_fin)
qed

text \<open>
  C4, as amended. When the alpha-cuts of \<open>A\<close> and \<open>B\<close> at alpha are the non-empty
  intervals \<open>[la, ha]\<close> and \<open>[lb, hb]\<close>, \<open>addX\<close> followed by \<open>subX\<close> of the same
  \<open>B\<close> returns an entity whose alpha-cut is \<open>[la - (hb - lb), ha + (hb - lb)]\<close>:
  it contains the alpha-cut of \<open>A\<close> and equals it exactly when the cut of \<open>B\<close> is a
  single point.
\<close>

theorem add_then_sub_widens:
  assumes un: "u A = Interval ulo uhi ul ur"
    and a: "xequals A alpha = Interval_new (Fin la) (Fin ha) False False" "la \<le> ha"
    and b: "xequals B alpha = Interval_new (Fin lb) (Fin hb) False False" "lb \<le> hb"
  shows "\<exists>r r'. addX A B alpha = Inr (Some r) \<and> subX r B alpha = Inr (Some r')
          \<and> xequals r' alpha =
               Interval_new (Fin (la - (hb - lb))) (Fin (ha + (hb - lb))) False False
          \<and> elems (xequals A alpha) \<subseteq> elems (xequals r' alpha)
          \<and> (elems (xequals r' alpha) = elems (xequals A alpha) \<longleftrightarrow> lb = hb)"
proof -
  let ?r = "\<lparr> u = u A, muequals = [(\<lambda>x. Some 0, \<lambda>x. True)],
            xequals = (\<lambda>al. Interval_new (Fin (la + lb)) (Fin (ha + hb)) False False) \<rparr>"
  let ?r' = "\<lparr> u = u ?r, muequals = [(\<lambda>x. Some 0, \<lambda>x. True)],
            xequals = (\<lambda>al. Interval_new (Fin (la + lb - hb)) (Fin (ha + hb - lb)) False False) \<rparr>"
  have 1: "addX A B alpha = Inr (Some ?r)" by (rule add_fin [OF un a b])
  have ur: "u ?r = Interval ulo uhi ul ur" using un by simp
  have xr: "xequals ?r alpha = Interval_new (Fin (la + lb)) (Fin (ha + hb)) False False" by simp
  from a(2) b(2) have le: "la + lb \<le> ha + hb" by simp
  have 2: "subX ?r B alpha = Inr (Some ?r')" by (rule sub_fin [OF ur xr le b])
  have e1: "la + lb - hb = la - (hb - lb)" and e2: "ha + hb - lb = ha + (hb - lb)" by simp_all
  have 3: "xequals ?r' alpha =
      Interval_new (Fin (la - (hb - lb))) (Fin (ha + (hb - lb))) False False"
    by (simp add: e1 e2)
  have 4: "elems (xequals ?r' alpha) = {la - (hb - lb) .. ha + (hb - lb)}"
    by (simp only: 3 elems_closed)
  have 5: "elems (xequals A alpha) = {la .. ha}" by (simp only: a(1) elems_closed)
  have 6: "{la .. ha} \<subseteq> {la - (hb - lb) .. ha + (hb - lb)}" using b(2) by auto
  have 7: "{la - (hb - lb) .. ha + (hb - lb)} = {la .. ha} \<longleftrightarrow> lb = hb"
  proof
    assume "{la - (hb - lb) .. ha + (hb - lb)} = {la .. ha}"
    moreover have "la - (hb - lb) \<in> {la - (hb - lb) .. ha + (hb - lb)}"
      using a(2) b(2) by simp
    ultimately have "la - (hb - lb) \<in> {la .. ha}" by (simp only:)
    then have "la \<le> la - (hb - lb)" by (simp only: atLeastAtMost_iff)
    with b(2) show "lb = hb" by simp
  next
    assume "lb = hb" then show "{la - (hb - lb) .. ha + (hb - lb)} = {la .. ha}" by simp
  qed
  from 1 2 3 4 5 6 7 show ?thesis by (intro exI [of _ ?r] exI [of _ ?r']) (simp only: simp_thms)
qed


theorem add_then_sub_widens_witness:
  "\<exists>r r'. addX (projr (TriangularXmu (Interval (Fin 0) (Fin 30) False False) (Some 0) (Some 10) (Some 20)))
               (projr (TriangularXmu (Interval (Fin 0) (Fin 30) False False) (Some 5) (Some 15) (Some 25)))
               (1/2) = Inr (Some r)
          \<and> subX r (projr (TriangularXmu (Interval (Fin 0) (Fin 30) False False)
                 (Some 5) (Some 15) (Some 25))) (1/2) = Inr (Some r')
          \<and> xequals r' (1/2) = Interval (Fin (-5)) (Fin 25) False False"
proof -
  let ?U = "Interval (Fin 0) (Fin 30) False False"
  let ?A = "projr (TriangularXmu ?U (Some 0) (Some 10) (Some 20))"
  let ?B = "projr (TriangularXmu ?U (Some 5) (Some 15) (Some 25))"
  have a: "xequals ?A (1/2) = Interval_new (Fin 5) (Fin 15) False False"
    by (simp add: triangular_Inr)
  have b: "xequals ?B (1/2) = Interval_new (Fin 10) (Fin 20) False False"
    by (simp add: triangular_Inr)
  have uA: "u ?A = Interval (Fin 0) (Fin 30) False False"
    by (simp add: triangular_Inr)
  have la: "(5::real) \<le> 15" and lb: "(10::real) \<le> 20" by simp_all
  from add_then_sub_widens [OF uA a la b lb] obtain r r' where
    "addX ?A ?B (1/2) = Inr (Some r)" "subX r ?B (1/2) = Inr (Some r')"
    "xequals r' (1/2) = Interval_new (Fin (5 - (20 - 10))) (Fin (15 + (20 - 10))) False False"
    by blast
  moreover have "Interval_new (Fin (5 - (20 - 10))) (Fin (15 + (20 - 10))) False False
      = Interval (Fin (-5)) (Fin 25) False False"
    by (simp add: Interval_new.simps)
  ultimately show ?thesis by metis
qed

text \<open>
  The claim as stated fails: over the universe \<open>[0, 30]\<close> at alpha \<open>1/2\<close> the
  triangle \<open>(0, 10, 20)\<close> has the cut \<open>[5, 15]\<close>; adding the triangle
  \<open>(5, 15, 25)\<close>, whose cut is \<open>[10, 20]\<close>, gives \<open>[15, 35]\<close>, and subtracting it
  again gives \<open>[-5, 25]\<close>.
\<close>

theorem add_then_sub_not_inverse:
  "xequals (projr (TriangularXmu (Interval (Fin 0) (Fin 30) False False)
       (Some 0) (Some 10) (Some 20))) (1/2) = Interval (Fin 5) (Fin 15) False False
   \<and> addX (projr (TriangularXmu (Interval (Fin 0) (Fin 30) False False) (Some 0) (Some 10) (Some 20)))
          (projr (TriangularXmu (Interval (Fin 0) (Fin 30) False False) (Some 5) (Some 15) (Some 25)))
          (1/2)
       = Inr (Some \<lparr> u = Interval (Fin 0) (Fin 30) False False,
                      muequals = [(\<lambda>x. Some 0, \<lambda>x. True)],
                      xequals = (\<lambda>al. Interval (Fin 15) (Fin 35) False False) \<rparr>)
   \<and> subX \<lparr> u = Interval (Fin 0) (Fin 30) False False,
            muequals = [(\<lambda>x. Some 0, \<lambda>x. True)],
            xequals = (\<lambda>al. Interval (Fin 15) (Fin 35) False False) \<rparr>
          (projr (TriangularXmu (Interval (Fin 0) (Fin 30) False False) (Some 5) (Some 15) (Some 25)))
          (1/2)
       = Inr (Some \<lparr> u = Interval (Fin 0) (Fin 30) False False,
                      muequals = [(\<lambda>x. Some 0, \<lambda>x. True)],
                      xequals = (\<lambda>al. Interval (Fin (-5)) (Fin 25) False False) \<rparr>)"
  by (simp add: triangular_Inr Interval_new.simps addX_def subX_def arithmeticalOperationX_def
      BasicXmu_def Xmu_init_def ext_lt_def)


subsection \<open>An alpha outside the unit interval\<close>

lemma Interval_new_empty: "h < l \<Longrightarrow> Interval_new (Fin l) (Fin h) False False = EmptySet"
  by (simp add: Interval_new.simps)

text \<open>
  C8, as amended. The arithmetic operations do not check alpha: a value outside
  \<open>[0,1]\<close> is substituted as given, neither rejected nor clamped. For a triangular
  entity with \<open>a \<le> b \<le> c\<close> and \<open>a < c\<close>: at every alpha above 1 the alpha-cut is
  empty and each of the five operations of the entity with itself returns \<open>None\<close>; at
  every alpha below 0 the alpha-cut is \<open>[alpha*(b-a)+a, c - alpha*(c-b)]\<close>, wider than
  the cut at 0, and \<open>addX\<close> returns the entity with twice these bounds.
\<close>

theorem alpha_not_range_checked:
  assumes c: "TriangularXmu (Interval ulo uhi ul ur) (Some a) (Some b) (Some c) = Inr A"
    and o: "a \<le> b" "b \<le> c" "a < c"
  shows "(1 < alpha \<longrightarrow>
            addX A A alpha = Inr None \<and> subX A A alpha = Inr None
          \<and> multiplyX A A alpha = Inr None \<and> divX A A alpha = Inr None
          \<and> powX mpi_pow A A alpha = Inr None)
       \<and> (alpha < 0 \<longrightarrow>
            addX A A alpha =
              Inr (Some \<lparr> u = Interval ulo uhi ul ur, muequals = [(\<lambda>x. Some 0, \<lambda>x. True)],
                xequals = (\<lambda>al. Interval_new (Fin (2 * (alpha * (b - a) + a)))
                                   (Fin (2 * (c - alpha * (c - b)))) False False) \<rparr>))"
proof (intro conjI impI)
  from c have x: "xequals A alpha =
      Interval_new (Fin (alpha * b - alpha * a + a)) (Fin (- alpha * c + alpha * b + c)) False False"
    and un: "u A = Interval ulo uhi ul ur"
    by (auto simp: triangular_Inr)
  have d: "(- alpha * c + alpha * b + c) - (alpha * b - alpha * a + a) = (1 - alpha) * (c - a)"
    by (simp add: algebra_simps)
  {
    assume "1 < alpha"
    with o(3) have "(1 - alpha) * (c - a) < 0" by (simp add: mult_neg_pos)
    with d have "- alpha * c + alpha * b + c < alpha * b - alpha * a + a" by linarith
    with x have "is_EmptySet (xequals A alpha)" by (simp add: Interval_new_empty)
    then show "addX A A alpha = Inr None" "subX A A alpha = Inr None"
      "multiplyX A A alpha = Inr None" "divX A A alpha = Inr None"
      "powX mpi_pow A A alpha = Inr None"
      by (simp_all add: addX_def subX_def multiplyX_def divX_def powX_def arith_None_iff)
  }
  assume neg: "alpha < 0"
  with o(3) have "0 \<le> (1 - alpha) * (c - a)" by simp
  with d have le: "alpha * b - alpha * a + a \<le> - alpha * c + alpha * b + c" by linarith
  have ad: "addX A A alpha = Inr (Some \<lparr> u = u A, muequals = [(\<lambda>x. Some 0, \<lambda>x. True)],
            xequals = (\<lambda>al. Interval_new
               (Fin ((alpha * b - alpha * a + a) + (alpha * b - alpha * a + a)))
               (Fin ((- alpha * c + alpha * b + c) + (- alpha * c + alpha * b + c))) False False) \<rparr>)"
    by (rule add_fin [OF un x le x le])
  have e1: "(alpha * b - alpha * a + a) + (alpha * b - alpha * a + a) = 2 * (alpha * (b - a) + a)"
    and e2: "(- alpha * c + alpha * b + c) + (- alpha * c + alpha * b + c) = 2 * (c - alpha * (c - b))"
    by (simp_all add: algebra_simps)
  from ad show "addX A A alpha =
              Inr (Some \<lparr> u = Interval ulo uhi ul ur, muequals = [(\<lambda>x. Some 0, \<lambda>x. True)],
                xequals = (\<lambda>al. Interval_new (Fin (2 * (alpha * (b - a) + a)))
                                   (Fin (2 * (c - alpha * (c - b)))) False False) \<rparr>)"
    by (simp only: e1 e2 un)
qed

theorem alpha_not_range_checked_witness:
  "addX (projr (TriangularXmu (Interval (Fin 0) (Fin 20) False False) (Some 0) (Some 10) (Some 20)))
        (projr (TriangularXmu (Interval (Fin 0) (Fin 20) False False) (Some 0) (Some 10) (Some 20)))
        2 = Inr None
   \<and> divX (projr (TriangularXmu (Interval (Fin 0) (Fin 20) False False) (Some 0) (Some 10) (Some 20)))
        (projr (TriangularXmu (Interval (Fin 0) (Fin 20) False False) (Some 0) (Some 10) (Some 20)))
        2 = Inr None
   \<and> addX (projr (TriangularXmu (Interval (Fin 0) (Fin 20) False False) (Some 0) (Some 10) (Some 20)))
        (projr (TriangularXmu (Interval (Fin 0) (Fin 20) False False) (Some 0) (Some 10) (Some 20)))
        (-1/2)
      = Inr (Some \<lparr> u = Interval (Fin 0) (Fin 20) False False,
                     muequals = [(\<lambda>x. Some 0, \<lambda>x. True)],
                     xequals = (\<lambda>al. Interval (Fin (-10)) (Fin 50) False False) \<rparr>)"
proof -
  let ?U = "Interval (Fin 0) (Fin 20) False False"
  obtain A where A: "TriangularXmu ?U (Some 0) (Some 10) (Some 20) = Inr A"
    by (simp add: triangular_Inr)
  have o: "(0::real) \<le> 10" "(10::real) \<le> 20" "(0::real) < 20" by simp_all
  note t = alpha_not_range_checked [OF A o]
  from t [of 2 "\<lambda>s t. Inr s"] have "addX A A 2 = Inr None" "divX A A 2 = Inr None" by simp_all
  moreover from t [of "-1/2" "\<lambda>s t. Inr s"] have "addX A A (-1/2) =
      Inr (Some \<lparr> u = ?U, muequals = [(\<lambda>x. Some 0, \<lambda>x. True)],
                xequals = (\<lambda>al. Interval (Fin (-10)) (Fin 50) False False) \<rparr>)"
    by (simp add: Interval_new.simps)
  ultimately show ?thesis using A by simp
qed

text \<open>
  The claim as stated fails: at alpha \<open>-1\<close> the triangle \<open>(0, 10, 20)\<close> over the
  universe \<open>[0, 20]\<close> has the cut \<open>[-10, 30]\<close>, and adding the entity to itself
  returns the entity with the cut \<open>[-20, 60]\<close>; the call is not rejected.
\<close>

theorem out_of_range_alpha_accepted:
  "addX (projr (TriangularXmu (Interval (Fin 0) (Fin 20) False False) (Some 0) (Some 10) (Some 20)))
        (projr (TriangularXmu (Interval (Fin 0) (Fin 20) False False) (Some 0) (Some 10) (Some 20)))
        (-1)
      = Inr (Some \<lparr> u = Interval (Fin 0) (Fin 20) False False,
                     muequals = [(\<lambda>x. Some 0, \<lambda>x. True)],
                     xequals = (\<lambda>al. Interval (Fin (-20)) (Fin 60) False False) \<rparr>)"
  by (simp add: triangular_Inr Interval_new.simps addX_def arithmeticalOperationX_def
      BasicXmu_def Xmu_init_def ext_lt_def)

end
